theory Spec2Isabelle
  imports Main "HOL-Library.Char_ord" "HOL-Library.List_Lexorder"
begin

section \<open>JavaScript values, errors and strings\<close>

text \<open>
  The program is TypeScript (\<^verbatim>\<open>src/CommandSpec.ts\<close>, \<^verbatim>\<open>src/AvaShell.ts\<close>). A thrown
  exception is a value of type \<open>exn\<close>; a function that can throw returns an \<open>outcome\<close>
  or a sum with the exception on the left.
\<close>

datatype exn =
    CommandError string string  \<comment> \<open>\<^verbatim>\<open>new CommandError(message, code)\<close>\<close>
  | Error string                \<comment> \<open>\<^verbatim>\<open>new Error(message)\<close>\<close>
  | TypeError string            \<comment> \<open>raised by the runtime, e.g. a property read on \<^verbatim>\<open>undefined\<close>\<close>

fun message :: "exn \<Rightarrow> string" where
  "message (CommandError m c) = m"
| "message (Error m) = m"
| "message (TypeError m) = m"

datatype 'a outcome = Returns 'a | Throws exn

text \<open>
  What a call does besides returning: the lines it writes to the console, the errors it
  hands to the logger, the handler methods it calls (context, method, arguments) and the
  prompt it sets.
\<close>

datatype event =
    ConsoleLog string
  | ConsoleError string
  | LogError exn
  | Invoke string string "string list"
  | SetPrompt string

text \<open>
  The values that flow through the sanitizer and the completer. A \<^verbatim>\<open>Date\<close> object is kept
  as the token \<open>v\<close> of \<^verbatim>\<open>new Date(+v * 1000)\<close>: its time value is a floating point number
  (possibly NaN) that no function below reads. \<open>JOther b\<close> is a value produced by a
  collaborator that is not part of these sources, of which only the truthiness \<open>b\<close> is used.
\<close>

datatype jsval =
    JUndefined
  | JNull
  | JString string
  | JStrings "string list"
  | JBN int
  | JDate string
  | JOther bool

fun truthy :: "jsval \<Rightarrow> bool" where
  "truthy JUndefined = False"
| "truthy JNull = False"
| "truthy (JString s) = (s \<noteq> [])"
| "truthy (JStrings xs) = True"
| "truthy (JBN n) = True"
| "truthy (JDate v) = True"
| "truthy (JOther b) = b"

text \<open>
  The string functions of the runtime that the sources call: \<^verbatim>\<open>s.startsWith(needle)\<close>,
  \<^verbatim>\<open>items.join(sep)\<close>, \<^verbatim>\<open>s.trim()\<close>, and the decimal text of a count inside a template
  string.
\<close>

fun startsWith :: "string \<Rightarrow> string \<Rightarrow> bool" where
  "startsWith s [] = True"
| "startsWith [] (n # ns) = False"
| "startsWith (c # cs) (n # ns) = (c = n \<and> startsWith cs ns)"

fun join :: "string \<Rightarrow> string list \<Rightarrow> string" where
  "join sep [] = []"
| "join sep [x] = x"
| "join sep (x # y # ys) = x @ sep @ join sep (y # ys)"

definition isSpace :: "char \<Rightarrow> bool" where
  "isSpace c = (c \<in> set [CHR 0x20, CHR 0x09, CHR 0x0A, CHR 0x0B, CHR 0x0C, CHR 0x0D])"

text \<open>
  The characters that \<^verbatim>\<open>String.prototype.trim\<close> removes (the white space and the line
  terminators of ECMAScript), each as its UTF-8 bytes: U+0009 to U+000D, U+0020, U+00A0,
  U+1680, U+2000 to U+200A, U+2028, U+2029, U+202F, U+205F, U+3000 and U+FEFF. A string
  of the program is the list of the bytes of its UTF-8 text, so U+00A0 is the two bytes
  C2 A0.
\<close>

definition whiteSpaceCodes :: "string list" where
  "whiteSpaceCodes =
     [[CHR 0x09], [CHR 0x0A], [CHR 0x0B], [CHR 0x0C], [CHR 0x0D], [CHR 0x20],
      [CHR 0xC2, CHR 0xA0],
      [CHR 0xE1, CHR 0x9A, CHR 0x80],
      [CHR 0xE2, CHR 0x80, CHR 0x80], [CHR 0xE2, CHR 0x80, CHR 0x81],
      [CHR 0xE2, CHR 0x80, CHR 0x82], [CHR 0xE2, CHR 0x80, CHR 0x83],
      [CHR 0xE2, CHR 0x80, CHR 0x84], [CHR 0xE2, CHR 0x80, CHR 0x85],
      [CHR 0xE2, CHR 0x80, CHR 0x86], [CHR 0xE2, CHR 0x80, CHR 0x87],
      [CHR 0xE2, CHR 0x80, CHR 0x88], [CHR 0xE2, CHR 0x80, CHR 0x89],
      [CHR 0xE2, CHR 0x80, CHR 0x8A],
      [CHR 0xE2, CHR 0x80, CHR 0xA8], [CHR 0xE2, CHR 0x80, CHR 0xA9],
      [CHR 0xE2, CHR 0x80, CHR 0xAF],
      [CHR 0xE2, CHR 0x81, CHR 0x9F],
      [CHR 0xE3, CHR 0x80, CHR 0x80],
      [CHR 0xEF, CHR 0xBB, CHR 0xBF]]"

text \<open>Removing from the front of \<open>s\<close>, one after the other, the codes that stand there.\<close>

function dropCodes :: "string list \<Rightarrow> string \<Rightarrow> string" where
  "dropCodes codes s =
     (case find (\<lambda>w. w \<noteq> [] \<and> take (length w) s = w) codes of
        None \<Rightarrow> s
      | Some w \<Rightarrow> dropCodes codes (drop (length w) s))"
  by pat_completeness auto
termination
proof (relation "measure (\<lambda>(codes, s). length s)")
  show "wf (measure (\<lambda>(codes, s). length s))" by simp
next
  fix codes :: "string list" and s w :: string
  assume "find (\<lambda>w. w \<noteq> [] \<and> take (length w) s = w) codes = Some w"
  then have "w \<noteq> []" and "take (length w) s = w"
    by (auto simp: find_Some_iff)
  then have "s \<noteq> []" by auto
  with \<open>w \<noteq> []\<close> show "((codes, drop (length w) s), (codes, s)) \<in> measure (\<lambda>(codes, s). length s)"
    by simp
qed

declare dropCodes.simps [simp del]

definition trim :: "string \<Rightarrow> string" where
  "trim s = rev (dropCodes (map rev whiteSpaceCodes) (rev (dropCodes whiteSpaceCodes s)))"

subsection \<open>Reading a property of an object\<close>

text \<open>
  \<^verbatim>\<open>obj[key]\<close> on a plain object or a class instance finds the properties the object has
  itself and, for any other key, the members that every object inherits from
  \<^verbatim>\<open>Object.prototype\<close> (ECMAScript, with its Annex B). These members are functions, and
  \<^verbatim>\<open>__proto__\<close> is an object: all of them are truthy. Nothing under src/ adds to
  \<^verbatim>\<open>Object.prototype\<close>.
\<close>

definition Object_prototype :: "string list" where
  "Object_prototype =
     [''constructor'', ''__defineGetter__'', ''__defineSetter__'', ''hasOwnProperty'',
      ''__lookupGetter__'', ''__lookupSetter__'', ''isPrototypeOf'', ''propertyIsEnumerable'',
      ''toString'', ''valueOf'', ''__proto__'', ''toLocaleString'']"

datatype 'a property = Undefined | Own 'a | Inherited

definition getProperty :: "(string \<Rightarrow> 'a option) \<Rightarrow> string \<Rightarrow> 'a property" where
  "getProperty obj key =
     (case obj key of
        Some v \<Rightarrow> Own v
      | None \<Rightarrow> if key \<in> set Object_prototype then Inherited else Undefined)"

definition digitChar :: "nat \<Rightarrow> char" where
  "digitChar d = ''0123456789'' ! d"

function Number_toString :: "nat \<Rightarrow> string" where
  "Number_toString n =
     (if n < 10 then [digitChar n] else Number_toString (n div 10) @ [digitChar (n mod 10)])"
  by pat_completeness auto
termination
  by (relation "measure id") auto

declare Number_toString.simps [simp del]

subsection \<open>Big integers\<close>

definition isDigit :: "char \<Rightarrow> bool" where
  "isDigit c = (CHR ''0'' \<le> c \<and> c \<le> CHR ''9'')"

definition digitVal :: "char \<Rightarrow> int" where
  "digitVal c = int (of_char c) - 48"

definition decimalValue :: "string \<Rightarrow> int" where
  "decimalValue v = fold (\<lambda>c n. 10 * n + digitVal c) v 0"

text \<open>
  Modelled from the spec: the class \<^verbatim>\<open>BN\<close> (package bn.js) is not under src/. The spec says
  that a BigInteger field "parses arbitrary-precision decimal text". \<open>BN_new v\<close> is the
  number that \<^verbatim>\<open>new BN(v)\<close> holds when \<open>v\<close> is a token of decimal digits. What the library
  does with any other text is the collaborator \<open>BN_nondecimal\<close> below.
\<close>

definition BN_new :: "string \<Rightarrow> int option" where
  "BN_new v = (if v \<noteq> [] \<and> list_all isDigit v then Some (decimalValue v) else None)"

text \<open>
  Modelled from the spec: \<^verbatim>\<open>toString(10)\<close> of the class \<^verbatim>\<open>BN\<close>, not under src/. The spec
  says that the value is "formatted back to decimal text".
\<close>

definition BN_toString :: "int \<Rightarrow> string" where
  "BN_toString n = (if n < 0 then ''-'' @ Number_toString (nat (- n)) else Number_toString (nat n))"

section \<open>Field specifications: \<^verbatim>\<open>CommandParamSpec\<close>\<close>

record CommandParamSpec =
  name :: string
  desc :: string
  type :: string
  optional :: "bool option"  \<comment> \<open>\<open>None\<close> when the record omits the key (\<^verbatim>\<open>undefined\<close>)\<close>
  hidden :: bool

text \<open>One entry of \<^verbatim>\<open>params\<close> in an on-disk record: name, desc, type, optional.\<close>

datatype ParamData = ParamData string string string "bool option"

fun dataName :: "ParamData \<Rightarrow> string" where
  "dataName (ParamData n d t opt) = n"

fun CommandParamSpec_new :: "ParamData \<Rightarrow> CommandParamSpec" where
  "CommandParamSpec_new (ParamData n d t opt) =
     \<lparr>CommandParamSpec.name = n, desc = d, type = t, optional = opt, hidden = False\<rparr>"

section \<open>Command definitions: \<^verbatim>\<open>CommandSpec2\<close>\<close>

text \<open>
  \<^verbatim>\<open>nameParamMap\<close> holds references to the objects of \<^verbatim>\<open>params\<close>; a reference is the
  index of the object in \<^verbatim>\<open>params\<close>, so that a write through the map is a write to the
  list. The map is read under \<^verbatim>\<open>username\<close> and \<^verbatim>\<open>password\<close> only, which are not names
  of members of \<^verbatim>\<open>Object.prototype\<close>.
\<close>

record CommandSpec2 =
  contextName :: string
  name :: string
  desc :: string
  outputType :: "string option"
  params :: "CommandParamSpec list"
  nameParamMap :: "string \<rightharpoonup> nat"
  useKeystore :: bool

text \<open>An on-disk record: name, desc, output, params.\<close>

datatype SpecData = SpecData string string "string option" "ParamData list"

text \<open>
  The constructor: the loop that fills \<^verbatim>\<open>params\<close> and \<^verbatim>\<open>nameParamMap\<close>, then the
  keystore check.
\<close>

fun pushParams ::
  "ParamData list \<Rightarrow> CommandParamSpec list \<times> (string \<rightharpoonup> nat) \<Rightarrow>
   CommandParamSpec list \<times> (string \<rightharpoonup> nat)" where
  "pushParams [] st = st"
| "pushParams (param # rest) (ps, m) =
     pushParams rest (ps @ [CommandParamSpec_new param], m(dataName param \<mapsto> length ps))"

definition setKeystoreFlags :: "CommandParamSpec \<Rightarrow> CommandParamSpec" where
  "setKeystoreFlags p = p\<lparr>hidden := True, optional := Some True\<rparr>"

fun CommandSpec2_new :: "string \<Rightarrow> SpecData \<Rightarrow> CommandSpec2" where
  "CommandSpec2_new ctx (SpecData n d out dparams) =
     (let (ps, npm) = pushParams dparams ([], Map.empty) in
      case (npm ''username'', npm ''password'') of
        (Some u, Some w) \<Rightarrow>
          (let ps1 = ps[u := setKeystoreFlags (ps ! u)];
               ps2 = ps1[w := setKeystoreFlags (ps1 ! w)]
           in \<lparr>contextName = ctx, name = n, desc = d, outputType = out, params = ps2,
                nameParamMap = npm, useKeystore = True\<rparr>)
      | _ \<Rightarrow>
          \<lparr>contextName = ctx, name = n, desc = d, outputType = out, params = ps,
           nameParamMap = npm, useKeystore = False\<rparr>)"

section \<open>Collaborators outside the sources\<close>

record AvaKeystoreUser =
  username :: string
  password :: string

text \<open>
  A handler method calls the remote service; of its body the model keeps whether the
  call \<^verbatim>\<open>methodFn.call(handler, ...params)\<close> completes (\<open>None\<close>) or throws. A handler
  object is its property lookup \<^verbatim>\<open>handler[method]\<close>.
\<close>

type_synonym handlerMethod = "string list \<Rightarrow> exn option"

type_synonym handler = "string \<Rightarrow> handlerMethod option"

text \<open>
  Modules the two source files import and whose code is not under src/, and objects of
  the runtime. Each is a parameter: \<^verbatim>\<open>StringUtility.splitTokens\<close>, \<^verbatim>\<open>ValueFormatter\<close>,
  \<^verbatim>\<open>JsonFile\<close>, what \<^verbatim>\<open>new BN\<close> does with text that is not decimal, \<^verbatim>\<open>toString\<close> of the
  values this model does not look into, the keystore cache of \<^verbatim>\<open>App.avaClient\<close>, and
  \<^verbatim>\<open>CommandRegistry.getCommandSpec\<close>. \<open>inheritedRead c m\<close> is the read of the property
  \<open>m\<close> of the runtime object that \<^verbatim>\<open>Object.prototype\<close> holds under the name \<open>c\<close>: the
  read throws, or finds nothing, or finds a member, of which the model keeps what calling
  it does.
\<close>

record Collaborators =
  splitTokens :: "string \<Rightarrow> string list"
  asNumberArray :: "string \<Rightarrow> exn + jsval"
  asStringArray :: "string \<Rightarrow> exn + jsval"
  readJsonFile :: "string \<Rightarrow> exn + jsval"
  BN_nondecimal :: "string \<Rightarrow> exn + jsval"
  toString_other :: "jsval \<Rightarrow> exn + jsval"
  getActiveUser :: "AvaKeystoreUser option"
  activeUsername :: "string option"
  getCommandSpec2 :: "string \<Rightarrow> string \<Rightarrow> CommandSpec2 option"
  inheritedRead :: "string \<Rightarrow> string \<Rightarrow> handlerMethod option outcome"

text \<open>
  Modelled from the spec: the scan behind \<^verbatim>\<open>StringUtility.splitTokens\<close>, which is not
  under src/. \<open>cur\<close> is the token being read.
\<close>

fun splitWhitespace :: "string \<Rightarrow> string \<Rightarrow> string list" where
  "splitWhitespace cur [] = (if cur = [] then [] else [cur])"
| "splitWhitespace cur (c # cs) =
     (if isSpace c then (if cur = [] then splitWhitespace [] cs else cur # splitWhitespace [] cs)
      else splitWhitespace (cur @ [c]) cs)"

text \<open>
  Modelled from the spec: \<^verbatim>\<open>StringUtility.splitTokens\<close> is not under src/. The spec says
  "Tokenize by whitespace (quoting rules out of scope)": the tokens are the maximal runs
  of characters that are not whitespace.
\<close>

definition StringUtility_splitTokens :: "string \<Rightarrow> string list" where
  "StringUtility_splitTokens line = splitWhitespace [] line"

text \<open>
  An environment to run the definitions in: the tokenizer above, nobody logged in, an
  empty file registry.
\<close>

definition plainCollaborators :: Collaborators where
  "plainCollaborators =
     \<lparr>splitTokens = StringUtility_splitTokens,
      asNumberArray = (\<lambda>v. Inr (JOther True)),
      asStringArray = (\<lambda>v. Inr (JStrings [v])),
      readJsonFile = (\<lambda>v. Inr (JOther True)),
      BN_nondecimal = (\<lambda>v. Inl (Error ''Invalid character'')),
      toString_other = (\<lambda>v. Inr (JString [])),
      getActiveUser = None,
      activeUsername = None,
      getCommandSpec2 = (\<lambda>c m. None),
      inheritedRead = (\<lambda>c m. Returns None)\<rparr>"

section \<open>Sanitizing and validating\<close>

definition sanitize :: "Collaborators \<Rightarrow> CommandParamSpec \<Rightarrow> string \<Rightarrow> exn + jsval" where
  "sanitize E p v =
     (if type p = ''string'' then Inr (JString v)
      else if type p = ''Array<number>'' then asNumberArray E v
      else if type p = ''Array<string>'' then asStringArray E v
      else if type p = ''BN'' then
        (case BN_new v of Some n \<Rightarrow> Inr (JBN n) | None \<Rightarrow> BN_nondecimal E v)
      else if type p = ''Date'' then Inr (JDate v)
      else Inl (Error (''Unknown type:'' @ type p)))"

definition toString10 :: "Collaborators \<Rightarrow> jsval \<Rightarrow> exn + jsval" where
  "toString10 E o' =
     (case o' of
        JBN n \<Rightarrow> Inr (JString (BN_toString n))
      | JString s \<Rightarrow> Inr (JString s)
      | JStrings xs \<Rightarrow> Inr (JString (join '','' xs))
      | JUndefined \<Rightarrow> Inl (TypeError ''Cannot read property toString of undefined'')
      | JNull \<Rightarrow> Inl (TypeError ''Cannot read property toString of null'')
      | _ \<Rightarrow> toString_other E o')"

definition formatOutput :: "Collaborators \<Rightarrow> CommandSpec2 \<Rightarrow> jsval \<Rightarrow> exn + jsval" where
  "formatOutput E s o' = (if outputType s = Some ''BN'' then toString10 E o' else Inr o')"

definition requiredParameterCount :: "CommandSpec2 \<Rightarrow> nat" where
  "requiredParameterCount s =
     fold (\<lambda>p n. if optional p = Some True then n else Suc n) (params s) 0"

definition isKeystoreUserParam :: "CommandSpec2 \<Rightarrow> CommandParamSpec \<Rightarrow> bool" where
  "isKeystoreUserParam s param = (useKeystore s \<and> CommandParamSpec.name param = ''username'')"

definition isKeystorePasswordParam :: "CommandSpec2 \<Rightarrow> CommandParamSpec \<Rightarrow> bool" where
  "isKeystorePasswordParam s param = (useKeystore s \<and> CommandParamSpec.name param = ''password'')"

text \<open>
  One round of the loop of \<^verbatim>\<open>validateInput\<close>: the value pushed and whether
  \<^verbatim>\<open>valueIndex\<close> advances, or the \<^verbatim>\<open>console.error\<close> line before \<^verbatim>\<open>return null\<close>, or
  the exception. \<^verbatim>\<open>user.username\<close> is a property read on \<^verbatim>\<open>undefined\<close> when
  \<^verbatim>\<open>getActiveUser()\<close> returned nothing; \<^verbatim>\<open>rawValues[valueIndex]\<close> is falsy when the index
  is out of range or the token is the empty string.
\<close>

datatype step = Push jsval bool | Invalid string | Raise exn

definition validateParam ::
  "Collaborators \<Rightarrow> CommandSpec2 \<Rightarrow> string list \<Rightarrow> nat \<Rightarrow> CommandParamSpec \<Rightarrow> step" where
  "validateParam E s rawValues valueIndex param =
     (if isKeystoreUserParam s param then
        (case getActiveUser E of
           None \<Rightarrow> Raise (TypeError ''Cannot read property username of undefined'')
         | Some user \<Rightarrow> Push (JString (username user)) False)
      else if isKeystorePasswordParam s param then
        (case getActiveUser E of
           None \<Rightarrow> Raise (TypeError ''Cannot read property password of undefined'')
         | Some user \<Rightarrow> Push (JString (password user)) False)
      else if valueIndex < length rawValues \<and> rawValues ! valueIndex \<noteq> [] then
        (case (if type param = ''JsonFile'' then readJsonFile E (rawValues ! valueIndex)
               else sanitize E param (rawValues ! valueIndex)) of
           Inl e \<Rightarrow> Raise e
         | Inr sanitized \<Rightarrow>
             if \<not> truthy sanitized then
               Invalid (''Invalid input '' @ rawValues ! valueIndex @ '' for field '' @
                        CommandParamSpec.name param)
             else Push sanitized True)
      else Push JUndefined False)"

fun validateLoop ::
  "Collaborators \<Rightarrow> CommandSpec2 \<Rightarrow> string list \<Rightarrow> CommandParamSpec list \<Rightarrow> nat \<Rightarrow>
   jsval list \<Rightarrow> event list \<times> jsval list option outcome" where
  "validateLoop E s rawValues [] valueIndex sanitizedInput = ([], Returns (Some sanitizedInput))"
| "validateLoop E s rawValues (param # rest) valueIndex sanitizedInput =
     (case validateParam E s rawValues valueIndex param of
        Push v advance \<Rightarrow>
          validateLoop E s rawValues rest (if advance then Suc valueIndex else valueIndex)
            (sanitizedInput @ [v])
      | Invalid line \<Rightarrow> ([ConsoleError line], Returns None)
      | Raise e \<Rightarrow> ([], Throws e))"

text \<open>\<open>Returns None\<close> is \<^verbatim>\<open>return null\<close>.\<close>

definition validateInput ::
  "Collaborators \<Rightarrow> CommandSpec2 \<Rightarrow> string list \<Rightarrow> event list \<times> jsval list option outcome" where
  "validateInput E s rawValues =
     (if length rawValues < requiredParameterCount s then
        ([ConsoleError (''Error: Requires at least '' @
            Number_toString (requiredParameterCount s) @ '' parameters'')], Returns None)
      else validateLoop E s rawValues (params s) 0 [])"

definition visibleParams :: "CommandSpec2 \<Rightarrow> CommandParamSpec list" where
  "visibleParams s = filter (\<lambda>p. \<not> hidden p) (params s)"

text \<open>\<^verbatim>\<open>printUsage(prefix, noOutput)\<close>: what it logs and the text it returns.\<close>

definition CommandSpec2_printUsage :: "CommandSpec2 \<Rightarrow> string \<Rightarrow> bool \<Rightarrow> event list \<times> string" where
  "CommandSpec2_printUsage s prefix noOutput =
     (let fieldNames =
            map (\<lambda>field. if optional field = Some True
                          then ''('' @ CommandParamSpec.name field @ '')''
                          else ''<'' @ CommandParamSpec.name field @ ''>'') (visibleParams s);
          out = (if fieldNames \<noteq> [] then CommandSpec2.name s @ '' '' @ join '' '' fieldNames
                 else CommandSpec2.name s);
          outLines =
            [prefix @ out, prefix @ ''+ '' @ CommandSpec2.desc s] @
            map (\<lambda>p. prefix @ prefix @ ''- '' @ CommandParamSpec.name p @
                       (if optional p = Some True then '' (optional)'' else []) @ '': '' @
                       CommandParamSpec.desc p) (visibleParams s) @
            [[]];
          fout = join [CHR 0x0A] outLines
      in (if \<not> noOutput then [ConsoleLog fout] else [], fout))"

section \<open>The annotation-derived definitions: \<^verbatim>\<open>FieldSpec\<close>, \<^verbatim>\<open>CommandSpec\<close>\<close>

record FieldSpec =
  name :: string
  isRequired :: bool

definition FieldSpec_new :: "string \<Rightarrow> bool \<Rightarrow> FieldSpec" where
  "FieldSpec_new n r = \<lparr>name = n, isRequired = r\<rparr>"

definition toHelpString :: "FieldSpec \<Rightarrow> string" where
  "toHelpString f =
     (if isRequired f then ''<'' @ FieldSpec.name f @ ''>'' else ''['' @ FieldSpec.name f @ '']'')"

text \<open>\<^verbatim>\<open>context\<close> is not set by the constructor; \<^verbatim>\<open>addCommandSpec\<close> sets it.\<close>

record CommandSpec =
  contextName :: "string option"
  countRequiredFields :: nat
  name :: string
  fieldSpecs :: "FieldSpec list"
  description :: string

definition CommandSpec_new :: "string \<Rightarrow> FieldSpec list \<Rightarrow> string \<Rightarrow> CommandSpec" where
  "CommandSpec_new n fs d =
     \<lparr>contextName = None,
      countRequiredFields = fold (\<lambda>field c. if isRequired field then Suc c else c) fs 0,
      name = n, fieldSpecs = fs, description = d\<rparr>"

definition CommandSpec_validateInput :: "CommandSpec \<Rightarrow> string list \<Rightarrow> bool" where
  "CommandSpec_validateInput s params' =
     (if length params' \<noteq> countRequiredFields s then False else True)"

definition CommandSpec_printUsage :: "CommandSpec \<Rightarrow> string \<Rightarrow> event list" where
  "CommandSpec_printUsage s prefix =
     (let fieldStrs = map toHelpString (fieldSpecs s);
          out = (if fieldStrs \<noteq> [] then CommandSpec.name s @ '' '' @ join '' '' fieldStrs
                 else CommandSpec.name s)
      in [ConsoleLog (prefix @ out), ConsoleLog (prefix @ ''- '' @ description s), ConsoleLog []])"

definition CommandSpec_id :: "CommandSpec \<Rightarrow> string" where
  "CommandSpec_id s =
     (case CommandSpec.contextName s of None \<Rightarrow> ''undefined'' | Some c \<Rightarrow> c) @ ''_'' @
     CommandSpec.name s"

section \<open>The handlers and the dispatcher: \<^verbatim>\<open>CommandHandler\<close>\<close>

text \<open>
  \<^verbatim>\<open>handler[method]\<close> on an instance of a handler class finds the methods the class
  declares and the members that every object inherits (\<^verbatim>\<open>constructor\<close> is the class,
  the others come from \<^verbatim>\<open>Object.prototype\<close>). \<open>body m\<close> is what calling the member found
  under \<open>m\<close> does.
\<close>

definition handlerOf :: "string list \<Rightarrow> (string \<Rightarrow> handlerMethod) \<Rightarrow> handler" where
  "handlerOf names body m =
     (if m \<in> set names \<or> m \<in> set Object_prototype then Some (body m) else None)"

text \<open>The methods each handler class declares, in the order of the source.\<close>

definition declaredMethods :: "string \<Rightarrow> string list" where
  "declaredMethods context' =
     (if context' = ''info'' then [''nodeId'']
      else if context' = ''keystore'' then [''listUsers'', ''createUser'', ''setUser'']
      else if context' = ''platform'' then
        [''_getActiveUser'', ''createAccount'', ''listAccounts'', ''getAccount'', ''importAva'',
         ''getNextPayerNonce'', ''exportAva'', ''issueTx'', ''addDefaultSubnetValidator'',
         ''getPendingValidators'', ''getCurrentValidators'']
      else if context' = ''avm'' then
        [''_getActiveUser'', ''importAva'', ''exportAva'', ''listAddresses'', ''listBalances'',
         ''createAddress'', ''getBalance'', ''getAllBalances'', ''send'', ''checkTx'', ''listTxs'']
      else [])"

definition InfoCommandHandler :: "(string \<Rightarrow> handlerMethod) \<Rightarrow> handler" where
  "InfoCommandHandler = handlerOf (declaredMethods ''info'')"

definition KeystoreCommandHandler :: "(string \<Rightarrow> handlerMethod) \<Rightarrow> handler" where
  "KeystoreCommandHandler = handlerOf (declaredMethods ''keystore'')"

definition PlatformCommandHandler :: "(string \<Rightarrow> handlerMethod) \<Rightarrow> handler" where
  "PlatformCommandHandler = handlerOf (declaredMethods ''platform'')"

definition AvmCommandHandler :: "(string \<Rightarrow> handlerMethod) \<Rightarrow> handler" where
  "AvmCommandHandler = handlerOf (declaredMethods ''avm'')"

text \<open>Handler methods that all complete without an exception.\<close>

definition completing :: "string \<Rightarrow> string \<Rightarrow> handlerMethod" where
  "completing context' method' args = None"

text \<open>The \<^verbatim>\<open>@command\<close> decorations of each handler class, in the order of the source.\<close>

definition keystoreCommands :: "CommandSpec list" where
  "keystoreCommands =
     [CommandSpec_new ''createUser'' [FieldSpec_new ''username'' True, FieldSpec_new ''password'' True]
        (''Creates a user in the node'' @ [CHR 0xE2, CHR 0x80, CHR 0x99] @ ''s database.''),
      CommandSpec_new ''setUser'' [FieldSpec_new ''username'' True, FieldSpec_new ''password'' True]
        ''Sets the active user for future avm commands'']"

definition platformCommands :: "CommandSpec list" where
  "platformCommands =
     [CommandSpec_new ''getAccount'' [FieldSpec_new ''address'' True]
        ''Fetch P-Chain account by address'',
      CommandSpec_new ''importAva'' [FieldSpec_new ''dest'' True, FieldSpec_new ''payerNonce'' False]
        ''Finalize a transfer of AVA from the X-Chain to the P-Chain.'',
      CommandSpec_new ''exportAva''
        [FieldSpec_new ''amount'' True, FieldSpec_new ''x-dest'' True, FieldSpec_new ''payerNonce'' True]
        ''Send AVA from an account on the P-Chain to an address on the X-Chain.'',
      CommandSpec_new ''issueTx'' [FieldSpec_new ''tx'' True]
        ''Issue a transaction to the platform chain'',
      CommandSpec_new ''addDefaultSubnetValidator''
        [FieldSpec_new ''destination'' True, FieldSpec_new ''stakeAmount'' True,
         FieldSpec_new ''endTimeDays'' True]
        ''Add current node to default subnet (sign and issue the transaction)'',
      CommandSpec_new ''getPendingValidators'' [FieldSpec_new ''subnetId'' False]
        ''List pending validator set for a subnet, or the Default Subnet if no subnetId is specified'',
      CommandSpec_new ''getCurrentValidators'' [FieldSpec_new ''subnetId'' False]
        ''List current validator set for a subnet, or the Default Subnet if no subnetId is specified'']"

definition avmCommands :: "CommandSpec list" where
  "avmCommands =
     [CommandSpec_new ''importAva'' [FieldSpec_new ''dest'' True]
        ''Finalize a transfer of AVA from the P-Chain to the X-Chain.'',
      CommandSpec_new ''exportAva'' [FieldSpec_new ''dest'' True, FieldSpec_new ''amount'' True]
        ''Send AVA from the X-Chain to an account on the P-Chain.'',
      CommandSpec_new ''getBalance'' [FieldSpec_new ''address'' True, FieldSpec_new ''asset'' False]
        ''Get the balance of an asset in an account'',
      CommandSpec_new ''getAllBalances'' [FieldSpec_new ''address'' True]
        ''Get the balance of all assets in an account'',
      CommandSpec_new ''send''
        [FieldSpec_new ''fromAddress'' True, FieldSpec_new ''toAddress'' True,
         FieldSpec_new ''amount'' True, FieldSpec_new ''asset'' False]
        (''Sends asset from an address managed by this node'' @ [CHR 0x27] @
         ''s keystore to a destination address''),
      CommandSpec_new ''checkTx'' [FieldSpec_new ''txId'' True]
        ''Check the status of a transaction id'',
      CommandSpec_new ''listTxs'' []
        ''Show the status transactions that have been submitted in this session'']"

definition META_COMMANDS :: "string list" where
  "META_COMMANDS = [''help'', ''exit'']"

text \<open>
  The three maps are plain objects; the record holds the properties they have themselves
  (\<open>handlerKeys\<close> is the enumeration of the keys of \<^verbatim>\<open>handlerMap\<close>), and every read
  \<^verbatim>\<open>map[key]\<close> goes through \<open>getProperty\<close>. \<^verbatim>\<open>activeContext\<close> is \<open>None\<close> when it is
  \<^verbatim>\<open>undefined\<close> or \<^verbatim>\<open>null\<close>.
\<close>

record CommandHandler =
  handlerKeys :: "string list"
  handlerMap :: "string \<Rightarrow> handler option"
  activeContext :: "string option"
  commandSpecMap :: "string \<Rightarrow> CommandSpec option"
  contextMethodMap :: "(string \<times> string list) list"

definition addCommandSpec ::
  "CommandSpec list \<Rightarrow> string \<Rightarrow> (string \<Rightarrow> CommandSpec option) \<Rightarrow> (string \<Rightarrow> CommandSpec option)" where
  "addCommandSpec decorated context' m =
     fold (\<lambda>c m'. let c' = c\<lparr>CommandSpec.contextName := Some context'\<rparr>
                  in m'(CommandSpec_id c' \<mapsto> c')) decorated m"

text \<open>
  The constructor. \<open>body context method\<close> is the body of a handler method; \<open>forIn context\<close>
  is the list of names that \<^verbatim>\<open>for (var m in this.handlerMap[context])\<close> enumerates, which
  depends on how the classes are compiled.
\<close>

definition CommandHandler_new ::
  "(string \<Rightarrow> string \<Rightarrow> handlerMethod) \<Rightarrow> (string \<Rightarrow> string list) \<Rightarrow> CommandHandler" where
  "CommandHandler_new body forIn =
     (let keys = [''info'', ''keystore'', ''avm'', ''platform''] in
      \<lparr>handlerKeys = keys,
       handlerMap =
         [''info'' \<mapsto> InfoCommandHandler (body ''info''),
          ''keystore'' \<mapsto> KeystoreCommandHandler (body ''keystore''),
          ''avm'' \<mapsto> AvmCommandHandler (body ''avm''),
          ''platform'' \<mapsto> PlatformCommandHandler (body ''platform'')],
       activeContext = None,
       commandSpecMap =
         addCommandSpec platformCommands ''platform''
           (addCommandSpec avmCommands ''avm''
             (addCommandSpec [] ''info''
               (addCommandSpec keystoreCommands ''keystore'' Map.empty))),
       contextMethodMap =
         map (\<lambda>context'. (context', filter (\<lambda>m. \<not> startsWith m ''_'') (forIn context'))) keys\<rparr>)"

text \<open>A string or \<^verbatim>\<open>null\<close> used as a condition: \<^verbatim>\<open>null\<close> and the empty string are falsy.\<close>

fun truthyString :: "string option \<Rightarrow> bool" where
  "truthyString None = False"
| "truthyString (Some s) = (s \<noteq> [])"

definition getTopLevelCommands :: "CommandHandler \<Rightarrow> string list" where
  "getTopLevelCommands h = META_COMMANDS @ handlerKeys h"

text \<open>
  \<^verbatim>\<open>this.contextMethodMap[context] || []\<close> followed by \<^verbatim>\<open>for (let cmd of ...)\<close>: an
  inherited member is truthy and cannot be iterated.
\<close>

definition getContextCommands :: "CommandHandler \<Rightarrow> string \<Rightarrow> string list outcome" where
  "getContextCommands h context' =
     (case getProperty (map_of (contextMethodMap h)) context' of
        Undefined \<Rightarrow> Returns ([] @ META_COMMANDS)
      | Own ms \<Rightarrow> Returns (ms @ META_COMMANDS)
      | Inherited \<Rightarrow>
          Throws (TypeError ''(this.contextMethodMap[context] || []) is not iterable''))"

definition isContext :: "CommandHandler \<Rightarrow> string \<Rightarrow> bool" where
  "isContext h context' =
     (case getProperty (handlerMap h) context' of Undefined \<Rightarrow> False | _ \<Rightarrow> True)"

definition getCommandSpec :: "CommandHandler \<Rightarrow> string \<Rightarrow> string \<Rightarrow> CommandSpec property" where
  "getCommandSpec h context' method' = getProperty (commandSpecMap h) (context' @ ''_'' @ method')"

text \<open>
  The two loops of \<^verbatim>\<open>printHelp\<close>. A value that \<^verbatim>\<open>getCommandSpec\<close> finds on
  \<^verbatim>\<open>Object.prototype\<close> is truthy and has no \<^verbatim>\<open>printUsage\<close>: the call throws.
\<close>

fun printHelpMethods :: "CommandHandler \<Rightarrow> string \<Rightarrow> string list \<Rightarrow> event list \<times> unit outcome" where
  "printHelpMethods h context' [] = ([], Returns ())"
| "printHelpMethods h context' (method' # rest) =
     (case getCommandSpec h context' method' of
        Own commandSpec \<Rightarrow>
          (case printHelpMethods h context' rest of
             (events, r) \<Rightarrow> (CommandSpec_printUsage commandSpec ''    '' @ events, r))
      | Undefined \<Rightarrow>
          (case printHelpMethods h context' rest of
             (events, r) \<Rightarrow> (ConsoleLog (''    '' @ method') # ConsoleLog [] # events, r))
      | Inherited \<Rightarrow> ([], Throws (TypeError ''commandSpec.printUsage is not a function'')))"

fun printHelpContexts ::
  "CommandHandler \<Rightarrow> string option \<Rightarrow> (string \<times> string list) list \<Rightarrow> event list \<times> unit outcome" where
  "printHelpContexts h targetContext [] = ([], Returns ())"
| "printHelpContexts h targetContext ((context', methods) # rest) =
     (if truthyString targetContext \<and> Some context' \<noteq> targetContext
      then printHelpContexts h targetContext rest
      else
        (case printHelpMethods h context' methods of
           (events, Throws error) \<Rightarrow> (ConsoleLog context' # events, Throws error)
         | (events, Returns u) \<Rightarrow>
             (case printHelpContexts h targetContext rest of
                (events', r) \<Rightarrow> (ConsoleLog context' # events @ [ConsoleLog []] @ events', r))))"

definition printHelp :: "CommandHandler \<Rightarrow> string option \<Rightarrow> event list \<times> unit outcome" where
  "printHelp h targetContext0 =
     (let targetContext = (if truthyString targetContext0 then targetContext0 else activeContext h)
      in case printHelpContexts h targetContext (contextMethodMap h) of
           (events, r) \<Rightarrow>
             ([ConsoleLog ''-------------------'', ConsoleLog ''SUPPORTED COMMANDS:'',
               ConsoleLog ''-------------------''] @ events, r))"

definition printHelpBasic :: "event list" where
  "printHelpBasic = [ConsoleError ''Invalid command. Type help to see all supported commands'']"

text \<open>
  \<^verbatim>\<open>handler[method]\<close> in \<^verbatim>\<open>handleCommand\<close>, for what \<^verbatim>\<open>this.handlerMap[context]\<close>
  found: a handler object of the program, or a member of \<^verbatim>\<open>Object.prototype\<close>.
\<close>

definition readMethod ::
  "Collaborators \<Rightarrow> handler property \<Rightarrow> string \<Rightarrow> string \<Rightarrow> handlerMethod option outcome" where
  "readMethod E found context' method' =
     (case found of
        Own handler' \<Rightarrow> Returns (handler' method')
      | Inherited \<Rightarrow> inheritedRead E context' method'
      | Undefined \<Rightarrow> Returns None)"

text \<open>The \<^verbatim>\<open>try\<close> block of \<^verbatim>\<open>handleCommand\<close>: the call of the method, its error logged.\<close>

definition invokeMethod :: "string \<Rightarrow> string \<Rightarrow> handlerMethod \<Rightarrow> string list \<Rightarrow> event list" where
  "invokeMethod context' method' methodFn params' =
     Invoke context' method' params' #
     (case methodFn params' of None \<Rightarrow> [] | Some error \<Rightarrow> [LogError error])"

text \<open>
  \<^verbatim>\<open>handleCommand(cmd)\<close>: the events and whether it returns or throws. \<^verbatim>\<open>params.shift()\<close>
  on an empty array is \<^verbatim>\<open>undefined\<close>, which reads the property named ``undefined''.
  The \<^verbatim>\<open>try\<close> block is only around the call of the handler method. A value that
  \<^verbatim>\<open>getCommandSpec\<close> finds on \<^verbatim>\<open>Object.prototype\<close> is truthy and has no
  \<^verbatim>\<open>validateInput\<close>: the call throws.
\<close>

definition handleCommand :: "Collaborators \<Rightarrow> CommandHandler \<Rightarrow> string \<Rightarrow> event list \<times> unit outcome" where
  "handleCommand E h cmd =
     (let params0 = splitTokens E cmd in
      if length params0 < 1 then (printHelpBasic, Returns ())
      else if length params0 = 1 \<and> params0 ! 0 = ''help'' then printHelp h None
      else if length params0 = 2 \<and> isContext h (params0 ! 0) \<and> params0 ! 1 = ''help''
        then printHelp h (Some (params0 ! 0))
      else if \<not> truthyString (activeContext h) \<and> length params0 < 2 then (printHelpBasic, Returns ())
      else
        (let (context', params1) =
               (if \<not> truthyString (activeContext h) then (hd params0, tl params0)
                else (the (activeContext h), params0))
         in case getProperty (handlerMap h) context' of
              Undefined \<Rightarrow> ([], Throws (CommandError (''Unknown context: '' @ context') ''not_found''))
            | handler' \<Rightarrow>
                (let method' = (case params1 of [] \<Rightarrow> ''undefined'' | m # _ \<Rightarrow> m);
                     params2 = tl params1
                 in case readMethod E handler' context' method' of
                      Throws error \<Rightarrow> ([], Throws error)
                    | Returns None \<Rightarrow>
                        ([], Throws (CommandError
                               (''Unknown method '' @ method' @ '' in context '' @ context')
                               ''not_found''))
                    | Returns (Some methodFn) \<Rightarrow>
                        (case getCommandSpec h context' method' of
                           Own commandSpec \<Rightarrow>
                             if \<not> CommandSpec_validateInput commandSpec params2 then
                               ([ConsoleLog ''Invalid Arguments''] @
                                CommandSpec_printUsage commandSpec ''Usage: '', Returns ())
                             else (invokeMethod context' method' methodFn params2, Returns ())
                         | Undefined \<Rightarrow> (invokeMethod context' method' methodFn params2, Returns ())
                         | Inherited \<Rightarrow>
                             ([], Throws (TypeError
                                    ''commandSpec.validateInput is not a function''))))))"

section \<open>The read-eval loop and the completer: \<^verbatim>\<open>AvaShell\<close>\<close>

definition updatePrompt :: "Collaborators \<Rightarrow> CommandHandler \<Rightarrow> event" where
  "updatePrompt E h =
     (let prompt = (case activeUsername E of
                      None \<Rightarrow> ''ava''
                    | Some u \<Rightarrow> if u \<noteq> [] then u @ ''@ava'' else ''ava'');
          prompt' = (if truthyString (activeContext h) then prompt @ '' '' @ the (activeContext h)
                     else prompt)
      in SetPrompt (prompt' @ ''> ''))"

text \<open>
  What \<^verbatim>\<open>evalHandler\<close> ends with: the value handed to \<^verbatim>\<open>callback(null, value)\<close>, or
  \<^verbatim>\<open>process.exit()\<close>.
\<close>

datatype reply = Callback jsval | ProcessExit

text \<open>The body of the \<^verbatim>\<open>try\<close> block of \<^verbatim>\<open>evalHandler\<close>.\<close>

definition evalBody ::
  "Collaborators \<Rightarrow> CommandHandler \<Rightarrow> string \<Rightarrow> CommandHandler \<times> event list \<times> reply outcome" where
  "evalBody E h cmd0 =
     (let cmd = trim cmd0 in
      if cmd = [] then (h, [], Returns (Callback JNull))
      else if cmd = ''exit'' then
        (if truthyString (activeContext h) then
           (let h' = h\<lparr>activeContext := None\<rparr>
            in (h', [updatePrompt E h'], Returns (Callback JNull)))
         else (h, [ConsoleLog ''Exiting...''], Returns ProcessExit))
      else if isContext h cmd \<and> activeContext h \<noteq> Some cmd then
        (let h' = h\<lparr>activeContext := Some cmd\<rparr>
         in (h', [updatePrompt E h'], Returns (Callback JNull)))
      else
        (case handleCommand E h cmd of
           (events, Returns res) \<Rightarrow> (h, events @ [updatePrompt E h], Returns (Callback JUndefined))
         | (events, Throws error) \<Rightarrow> (h, events, Throws error)))"

definition evalHandler ::
  "Collaborators \<Rightarrow> CommandHandler \<Rightarrow> string \<Rightarrow> CommandHandler \<times> event list \<times> reply" where
  "evalHandler E h cmd =
     (case evalBody E h cmd of
        (h', events, Returns r) \<Rightarrow> (h', events, r)
      | (h', events, Throws error) \<Rightarrow>
          (h', events @ [LogError error],
           Callback (JString (if message error \<noteq> [] then ''Error: '' @ message error
                              else ''Unexpected error''))))"

text \<open>\<^verbatim>\<open>out.sort\<close> in \<^verbatim>\<open>appendSeparator\<close> reads the property and calls nothing.\<close>

definition appendSeparator :: "string list \<Rightarrow> string list" where
  "appendSeparator items = map (\<lambda>x. x @ '' '') items"

definition getCompletions :: "string \<Rightarrow> string list \<Rightarrow> string list" where
  "getCompletions needle haystack = sort (filter (\<lambda>c. startsWith c needle) haystack)"

text \<open>
  \<^verbatim>\<open>completer(line)\<close>: the events and the two components of the array it returns, or
  what it throws. \<^verbatim>\<open>params[0]\<close> of an empty array is \<^verbatim>\<open>undefined\<close>.
\<close>

definition completer ::
  "Collaborators \<Rightarrow> CommandHandler \<Rightarrow> string \<Rightarrow> event list \<times> (jsval \<times> jsval) outcome" where
  "completer E h line =
     (let params0 = splitTokens E line in
      if params0 = [] then ([], Returns (JUndefined, JStrings (getTopLevelCommands h)))
      else if \<not> truthyString (activeContext h) then
        (if length params0 = 1 then
           (let completions = getCompletions (params0 ! 0) (getTopLevelCommands h) in
            if isContext h (params0 ! 0)
            then (case getContextCommands h (params0 ! 0) of
                    Throws error \<Rightarrow> ([], Throws error)
                  | Returns commands \<Rightarrow> ([], Returns (JStrings commands, JString (params0 ! 0))))
            else ([], Returns (JStrings (appendSeparator completions), JString (params0 ! 0))))
         else
           (case getCommandSpec h (params0 ! 0) (params0 ! 1) of
              Own commandSpecLegacy \<Rightarrow>
                (ConsoleLog [CHR 0x0A] # CommandSpec_printUsage commandSpecLegacy [],
                 Returns (JStrings [[]], JString line))
            | Inherited \<Rightarrow>
                ([ConsoleLog [CHR 0x0A]],
                 Throws (TypeError ''commandSpecLegacy.printUsage is not a function''))
            | Undefined \<Rightarrow>
                (case getCommandSpec2 E (params0 ! 0) (params0 ! 1) of
                   Some commandSpec \<Rightarrow>
                     (ConsoleLog [CHR 0x0A] #
                      fst (CommandSpec2_printUsage commandSpec [] False),
                      Returns (JStrings [[]], JString line))
                 | None \<Rightarrow>
                     (case getContextCommands h (params0 ! 0) of
                        Throws error \<Rightarrow> ([], Throws error)
                      | Returns commands \<Rightarrow>
                          ([], Returns (JStrings (appendSeparator
                                  (getCompletions (params0 ! 1) commands)),
                                JString (params0 ! 1)))))))
      else
        (if length params0 = 1 then
           (case getContextCommands h (the (activeContext h)) of
              Throws error \<Rightarrow> ([], Throws error)
            | Returns commands \<Rightarrow>
                ([], Returns (JStrings (appendSeparator (getCompletions (params0 ! 0) commands)),
                      JString (params0 ! 0))))
         else ([], Returns (JStrings [], JString []))))"

section \<open>Facts about strings and counting loops\<close>

lemma startsWith_iff: "startsWith s n = (take (length n) s = n)"
  by (induction s n rule: startsWith.induct) auto

lemma trim_avm: "trim ''avm'' = ''avm''"
  by (simp add: trim_def dropCodes.simps whiteSpaceCodes_def)

lemma trim_exit: "trim ''exit'' = ''exit''"
  by (simp add: trim_def dropCodes.simps whiteSpaceCodes_def)

lemma trim_constructor: "trim ''constructor'' = ''constructor''"
  by (simp add: trim_def dropCodes.simps whiteSpaceCodes_def)

lemma trim_platform: "trim ''platform'' = ''platform''"
  by (simp add: trim_def dropCodes.simps whiteSpaceCodes_def)



lemma trim_nbsp_avm: "trim ([CHR 0xC2, CHR 0xA0] @ ''avm'' @ [CHR 0x0A]) = ''avm''"
  by (simp add: trim_def dropCodes.simps whiteSpaceCodes_def)

lemma tokens_empty: "StringUtility_splitTokens [] = []"
  by (simp add: StringUtility_splitTokens_def)

lemma tokens_av: "StringUtility_splitTokens ''av'' = [''av'']"
  by (simp add: StringUtility_splitTokens_def isSpace_def)





lemma tokens_avm_listTxs: "StringUtility_splitTokens ''avm listTxs'' = [''avm'', ''listTxs'']"
  by (simp add: StringUtility_splitTokens_def isSpace_def)

lemma tokens_avm_send:
  "StringUtility_splitTokens ''avm send a b'' = [''avm'', ''send'', ''a'', ''b'']"
  by (simp add: StringUtility_splitTokens_def isSpace_def)

lemma tokens_avm_getBalance:
  "StringUtility_splitTokens ''avm getBalance addr AVA'' =
     [''avm'', ''getBalance'', ''addr'', ''AVA'']"
  by (simp add: StringUtility_splitTokens_def isSpace_def)

lemma fold_count: "fold (\<lambda>x c. if P x then Suc c else c) xs k = k + length (filter P xs)"
  by (induction xs arbitrary: k) auto

lemma distinct_map_nth_eq:
  assumes "distinct (map f xs)" "k < length xs" "i < length xs" "f (xs ! k) = f (xs ! i)"
  shows "k = i"
proof -
  have "map f xs ! k = map f xs ! i" using assms by simp
  with assms show ?thesis using nth_eq_iff_index_eq [of "map f xs" k i] by simp
qed

section \<open>Facts about property reads and the constructed dispatcher\<close>

lemma getProperty_Undefined_iff:
  "(getProperty obj key = Undefined) = (obj key = None \<and> key \<notin> set Object_prototype)"
  by (simp add: getProperty_def split: option.splits)


lemma getProperty_Own_iff: "(getProperty obj key = Own v) = (obj key = Some v)"
  by (simp add: getProperty_def split: option.splits)

lemma isContext_iff: "isContext h c = (handlerMap h c \<noteq> None \<or> c \<in> set Object_prototype)"
  by (auto simp: isContext_def getProperty_def split: option.splits property.splits)

lemma isContext_activeContext [simp]:
  "isContext (h\<lparr>activeContext := a\<rparr>) c = isContext h c"
  by (simp add: isContext_def)

lemma getCommandSpec_activeContext [simp]:
  "getCommandSpec (h\<lparr>activeContext := a\<rparr>) c m = getCommandSpec h c m"
  by (simp add: getCommandSpec_def)




lemmas registry_defs =
  CommandHandler_new_def addCommandSpec_def keystoreCommands_def platformCommands_def
  avmCommands_def CommandSpec_new_def FieldSpec_new_def CommandSpec_id_def getCommandSpec_def
  getProperty_def Let_def

lemma new_activeContext [simp]: "activeContext (CommandHandler_new body forIn) = None"
  by (simp add: CommandHandler_new_def)

lemma new_handlerKeys [simp]:
  "handlerKeys (CommandHandler_new body forIn) = [''info'', ''keystore'', ''avm'', ''platform'']"
  by (simp add: CommandHandler_new_def)

lemma new_handlerMap_dom:
  "(handlerMap (CommandHandler_new body forIn) c \<noteq> None) =
     (c \<in> set [''info'', ''keystore'', ''avm'', ''platform''])"
  by (simp add: CommandHandler_new_def)

lemma new_isContext:
  "isContext (CommandHandler_new body forIn) c =
     (c \<in> set [''info'', ''keystore'', ''avm'', ''platform''] \<or> c \<in> set Object_prototype)"
  using new_handlerMap_dom [of body forIn c] by (simp add: isContext_iff)


lemma new_isContext_av: "\<not> isContext (CommandHandler_new body forIn) ''av''"
  by (simp add: new_isContext Object_prototype_def)




lemma new_isContext_avm: "isContext (CommandHandler_new body forIn) ''avm''"
  by (simp add: new_isContext)

lemma new_isContext_platform:
  "isContext (CommandHandler_new body forIn) ''platform''"
  by (simp add: new_isContext)

lemma new_isContext_constructor:
  "isContext (CommandHandler_new body forIn) ''constructor''"
  by (simp add: new_isContext Object_prototype_def)

lemma new_handlerMap_avm:
  "handlerMap (CommandHandler_new body forIn) ''avm'' =
     Some (AvmCommandHandler (body ''avm''))"
  by (simp add: CommandHandler_new_def Let_def)

lemma new_getProperty_avm:
  "getProperty (handlerMap (CommandHandler_new body forIn)) ''avm'' =
     Own (AvmCommandHandler (body ''avm''))"
  by (simp add: getProperty_Own_iff new_handlerMap_avm)

lemma AvmCommandHandler_send: "AvmCommandHandler b ''send'' = Some (b ''send'')"
  by (simp add: AvmCommandHandler_def handlerOf_def declaredMethods_def)

lemma AvmCommandHandler_getBalance: "AvmCommandHandler b ''getBalance'' = Some (b ''getBalance'')"
  by (simp add: AvmCommandHandler_def handlerOf_def declaredMethods_def)

lemma AvmCommandHandler_listTxs: "AvmCommandHandler b ''listTxs'' = Some (b ''listTxs'')"
  by (simp add: AvmCommandHandler_def handlerOf_def declaredMethods_def)



lemma getCommandSpec_avm_send:
  "getCommandSpec (CommandHandler_new body forIn) ''avm'' ''send'' =
     Own ((CommandSpec_new ''send''
        [FieldSpec_new ''fromAddress'' True, FieldSpec_new ''toAddress'' True,
         FieldSpec_new ''amount'' True, FieldSpec_new ''asset'' False]
        (''Sends asset from an address managed by this node'' @ [CHR 0x27] @
         ''s keystore to a destination address''))\<lparr>CommandSpec.contextName := Some ''avm''\<rparr>)"
  by (simp add: registry_defs)

lemma getCommandSpec_avm_getBalance:
  "getCommandSpec (CommandHandler_new body forIn) ''avm'' ''getBalance'' =
     Own ((CommandSpec_new ''getBalance''
        [FieldSpec_new ''address'' True, FieldSpec_new ''asset'' False]
        ''Get the balance of an asset in an account'')\<lparr>CommandSpec.contextName := Some ''avm''\<rparr>)"
  by (simp add: registry_defs)

lemma getCommandSpec_avm_listTxs:
  "getCommandSpec (CommandHandler_new body forIn) ''avm'' ''listTxs'' =
     Own ((CommandSpec_new ''listTxs'' []
        ''Show the status transactions that have been submitted in this session'')
        \<lparr>CommandSpec.contextName := Some ''avm''\<rparr>)"
  by (simp add: registry_defs)


lemma handleCommand_avm_send_a_b:
  "handleCommand (E\<lparr>splitTokens := StringUtility_splitTokens\<rparr>)
     (CommandHandler_new body forIn) ''avm send a b'' =
     ([ConsoleLog ''Invalid Arguments'',
       ConsoleLog ''Usage: send <fromAddress> <toAddress> <amount> [asset]'',
       ConsoleLog (''Usage: - Sends asset from an address managed by this node'' @ [CHR 0x27] @
         ''s keystore to a destination address''),
       ConsoleLog []], Returns ())"
  unfolding handleCommand_def
  using getCommandSpec_avm_send new_getProperty_avm
  by (simp add: tokens_avm_send readMethod_def AvmCommandHandler_send
      CommandSpec_validateInput_def CommandSpec_printUsage_def CommandSpec_new_def FieldSpec_new_def
      toHelpString_def)

lemma handleCommand_avm_getBalance_addr_AVA:
  "handleCommand (E\<lparr>splitTokens := StringUtility_splitTokens\<rparr>)
     (CommandHandler_new body forIn) ''avm getBalance addr AVA'' =
     ([ConsoleLog ''Invalid Arguments'',
       ConsoleLog ''Usage: getBalance <address> [asset]'',
       ConsoleLog ''Usage: - Get the balance of an asset in an account'',
       ConsoleLog []], Returns ())"
  unfolding handleCommand_def
  using getCommandSpec_avm_getBalance new_getProperty_avm
  by (simp add: tokens_avm_getBalance readMethod_def AvmCommandHandler_getBalance
      CommandSpec_validateInput_def CommandSpec_printUsage_def CommandSpec_new_def FieldSpec_new_def
      toHelpString_def)

lemma plainCollaborators_splitTokens [simp]:
  "splitTokens plainCollaborators = StringUtility_splitTokens"
  by (simp add: plainCollaborators_def)

section \<open>Required-field counts and the two validators\<close>

lemma CommandSpec_validateInput_iff:
  "CommandSpec_validateInput s ps = (length ps = countRequiredFields s)"
  by (simp add: CommandSpec_validateInput_def)

lemma countRequiredFields_new:
  "countRequiredFields (CommandSpec_new n fs d) = length (filter isRequired fs)"
  by (simp add: CommandSpec_new_def fold_count)

lemma requiredParameterCount_eq:
  "requiredParameterCount s = length (filter (\<lambda>p. optional p \<noteq> Some True) (params s))"
proof -
  have "fold (\<lambda>p n. if optional p = Some True then n else Suc n) xs k
          = k + length (filter (\<lambda>p. optional p \<noteq> Some True) xs)" for xs k
    by (induction xs arbitrary: k) auto
  from this [of "params s" 0] show ?thesis by (simp add: requiredParameterCount_def)
qed

lemma validateInput_too_few:
  "length raw < requiredParameterCount s \<Longrightarrow>
   validateInput E s raw =
     ([ConsoleError (''Error: Requires at least '' @ Number_toString (requiredParameterCount s) @
        '' parameters'')], Returns None)"
  by (simp add: validateInput_def)

text \<open>
  With an active user where one is needed, and tokens that all sanitize to a truthy value,
  one round of the loop of \<^verbatim>\<open>CommandSpec2.validateInput\<close> pushes a value, and the call
  returns one value per declared field.
\<close>

lemma validateParam_wellformed:
  assumes "useKeystore s \<longrightarrow> getActiveUser E \<noteq> None"
    and "\<forall>v \<in> set raw. v \<noteq> [] \<longrightarrow>
           (\<exists>x. (if type p = ''JsonFile'' then readJsonFile E v else sanitize E p v) = Inr x \<and>
                 truthy x)"
  shows "\<exists>v adv. validateParam E s raw vi p = Push v adv"
proof (cases "isKeystoreUserParam s p \<or> isKeystorePasswordParam s p")
  case True
  then have "useKeystore s"
    by (auto simp: isKeystoreUserParam_def isKeystorePasswordParam_def)
  with assms(1) obtain user where "getActiveUser E = Some user" by auto
  with True have "validateParam E s raw vi p = Push (JString (username user)) False \<or>
      validateParam E s raw vi p = Push (JString (password user)) False"
    by (auto simp: validateParam_def)
  then show ?thesis by blast
next
  case False
  show ?thesis
  proof (cases "vi < length raw \<and> raw ! vi \<noteq> []")
    case True
    then have "raw ! vi \<in> set raw" by simp
    with assms(2) True obtain x where
      "(if type p = ''JsonFile'' then readJsonFile E (raw ! vi) else sanitize E p (raw ! vi)) = Inr x"
      "truthy x" by blast
    with False True have "validateParam E s raw vi p = Push x True"
      by (simp add: validateParam_def)
    then show ?thesis by blast
  next
    case absent: False
    with False have "validateParam E s raw vi p = Push JUndefined False"
      by (auto simp: validateParam_def)
    then show ?thesis by blast
  qed
qed

lemma validateLoop_wellformed:
  assumes "useKeystore s \<longrightarrow> getActiveUser E \<noteq> None"
    and "\<forall>p \<in> set ps. \<forall>v \<in> set raw. v \<noteq> [] \<longrightarrow>
           (\<exists>x. (if type p = ''JsonFile'' then readJsonFile E v else sanitize E p v) = Inr x \<and>
                 truthy x)"
  shows "\<exists>vs. validateLoop E s raw ps vi acc = ([], Returns (Some (acc @ vs))) \<and>
              length vs = length ps"
  using assms(2)
proof (induction ps arbitrary: vi acc)
  case Nil
  then show ?case by simp
next
  case (Cons p ps)
  from Cons.prems have "\<forall>v \<in> set raw. v \<noteq> [] \<longrightarrow>
           (\<exists>x. (if type p = ''JsonFile'' then readJsonFile E v else sanitize E p v) = Inr x \<and>
                 truthy x)"
    by simp
  from validateParam_wellformed [OF assms(1) this]
  obtain v adv where step: "validateParam E s raw vi p = Push v adv" by blast
  from Cons.prems have rest: "\<forall>p \<in> set ps. \<forall>v \<in> set raw. v \<noteq> [] \<longrightarrow>
           (\<exists>x. (if type p = ''JsonFile'' then readJsonFile E v else sanitize E p v) = Inr x \<and>
                 truthy x)"
    by simp
  from Cons.IH [OF rest, of "if adv then Suc vi else vi" "acc @ [v]"]
  obtain vs where "validateLoop E s raw ps (if adv then Suc vi else vi) (acc @ [v]) =
      ([], Returns (Some ((acc @ [v]) @ vs)))" "length vs = length ps" by blast
  with step have "validateLoop E s raw (p # ps) vi acc = ([], Returns (Some (acc @ (v # vs))))
      \<and> length (v # vs) = length (p # ps)" by simp
  then show ?case by blast
qed

lemma validateInput_wellformed:
  assumes "requiredParameterCount s \<le> length raw"
    and "useKeystore s \<longrightarrow> getActiveUser E \<noteq> None"
    and "\<forall>p \<in> set (params s). \<forall>v \<in> set raw. v \<noteq> [] \<longrightarrow>
           (\<exists>x. (if type p = ''JsonFile'' then readJsonFile E v else sanitize E p v) = Inr x \<and>
                 truthy x)"
  shows "\<exists>vs. validateInput E s raw = ([], Returns (Some vs)) \<and> length vs = length (params s)"
  using validateLoop_wellformed [OF assms(2,3), of 0 "[]"] assms(1)
  by (simp add: validateInput_def)

text \<open>
  C1. The claim: both validators fail when there are fewer tokens than required fields and
  succeed when there are at least as many. The validator of \<^verbatim>\<open>CommandSpec\<close> accepts exactly
  as many tokens as there are required fields, no more: \<^verbatim>\<open>avm getBalance\<close> declares the
  required field \<^verbatim>\<open>address\<close> and the optional field \<^verbatim>\<open>asset\<close>, and the two tokens of
  \<^verbatim>\<open>avm getBalance addr AVA\<close> are refused, the handler method is not called.
\<close>

theorem CommandSpec_validateInput_refuses_optional_token:
  "CommandSpec_validateInput s ps = (length ps = countRequiredFields s)
   \<and> map_property (\<lambda>s. (countRequiredFields s, CommandSpec_validateInput s [''addr'', ''AVA'']))
       (getCommandSpec (CommandHandler_new body forIn) ''avm'' ''getBalance'') = Own (1, False)
   \<and> handleCommand (E\<lparr>splitTokens := StringUtility_splitTokens\<rparr>)
       (CommandHandler_new body forIn) ''avm getBalance addr AVA'' =
       ([ConsoleLog ''Invalid Arguments'',
         ConsoleLog ''Usage: getBalance <address> [asset]'',
         ConsoleLog ''Usage: - Get the balance of an asset in an account'',
         ConsoleLog []], Returns ())"
  by (simp add: handleCommand_avm_getBalance_addr_AVA getCommandSpec_avm_getBalance
      CommandSpec_validateInput_def CommandSpec_new_def FieldSpec_new_def)

section \<open>Errors of a command\<close>

















section \<open>The constructor of \<^verbatim>\<open>CommandSpec2\<close>\<close>

lemma name_CommandParamSpec_new [simp]:
  "CommandParamSpec.name (CommandParamSpec_new d) = dataName d"
  by (cases d) simp

lemma name_setKeystoreFlags [simp]:
  "CommandParamSpec.name (setKeystoreFlags p) = CommandParamSpec.name p"
  by (simp add: setKeystoreFlags_def)

lemma flags_setKeystoreFlags [simp]:
  "hidden (setKeystoreFlags p)" "optional (setKeystoreFlags p) = Some True"
  by (simp_all add: setKeystoreFlags_def)

lemma pushParams_fst: "fst (pushParams ds (ps, m)) = ps @ map CommandParamSpec_new ds"
  by (induction ds arbitrary: ps m) auto

lemma pushParams_snd_defined:
  "m k \<noteq> None \<or> k \<in> dataName ` set ds \<Longrightarrow> snd (pushParams ds (ps, m)) k \<noteq> None"
  by (induction ds arbitrary: ps m) auto

lemma pushParams_snd_index:
  assumes "\<And>k i. m k = Some i \<Longrightarrow> i < length ps \<and> CommandParamSpec.name (ps ! i) = k"
    and "snd (pushParams ds (ps, m)) k = Some i"
  shows "i < length (ps @ map CommandParamSpec_new ds) \<and>
         CommandParamSpec.name ((ps @ map CommandParamSpec_new ds) ! i) = k"
  using assms
proof (induction ds arbitrary: ps m)
  case Nil
  then show ?case by simp
next
  case (Cons d ds)
  have inv: "i < length (ps @ [CommandParamSpec_new d]) \<and>
             CommandParamSpec.name ((ps @ [CommandParamSpec_new d]) ! i) = k"
    if "(m(dataName d \<mapsto> length ps)) k = Some i" for k i
    using that Cons.prems(1) [of k i] by (auto simp: nth_append split: if_splits)
  from Cons.prems(2)
  have "snd (pushParams ds (ps @ [CommandParamSpec_new d], m(dataName d \<mapsto> length ps))) k = Some i"
    by simp
  from Cons.IH [OF inv this] show ?case by simp
qed

text \<open>
  C3. For a record whose \<^verbatim>\<open>params\<close> hold a field named \<^verbatim>\<open>username\<close> and a field named
  \<^verbatim>\<open>password\<close>, the constructed definition has \<^verbatim>\<open>useKeystore = true\<close>, the fields keep
  their names and order, and the two fields that \<^verbatim>\<open>nameParamMap\<close> refers to under these names
  are hidden and optional, whatever the record declared. When no two fields share a name,
  these are all the fields of these names. No function of the model returns a changed
  definition: the flags are set in the constructor and nowhere else.
\<close>

theorem CommandSpec2_new_keystore_fields:
  assumes u: "''username'' \<in> set (map dataName dps)"
      and w: "''password'' \<in> set (map dataName dps)"
  shows "useKeystore (CommandSpec2_new ctx (SpecData n d out dps))
       \<and> map CommandParamSpec.name (params (CommandSpec2_new ctx (SpecData n d out dps)))
           = map dataName dps
       \<and> (\<exists>i j. nameParamMap (CommandSpec2_new ctx (SpecData n d out dps)) ''username'' = Some i
              \<and> nameParamMap (CommandSpec2_new ctx (SpecData n d out dps)) ''password'' = Some j
              \<and> i < length dps \<and> j < length dps
              \<and> dataName (dps ! i) = ''username'' \<and> dataName (dps ! j) = ''password''
              \<and> hidden (params (CommandSpec2_new ctx (SpecData n d out dps)) ! i)
              \<and> optional (params (CommandSpec2_new ctx (SpecData n d out dps)) ! i) = Some True
              \<and> hidden (params (CommandSpec2_new ctx (SpecData n d out dps)) ! j)
              \<and> optional (params (CommandSpec2_new ctx (SpecData n d out dps)) ! j) = Some True)
       \<and> (distinct (map dataName dps) \<longrightarrow>
            (\<forall>p \<in> set (params (CommandSpec2_new ctx (SpecData n d out dps))).
               CommandParamSpec.name p = ''username'' \<or> CommandParamSpec.name p = ''password'' \<longrightarrow>
               hidden p \<and> optional p = Some True))"
proof -
  define ps where "ps = map CommandParamSpec_new dps"
  define npm where "npm = snd (pushParams dps ([], Map.empty))"
  have pp: "pushParams dps ([], Map.empty) = (ps, npm)"
    using pushParams_fst [of dps "[]" Map.empty] by (simp add: ps_def npm_def prod_eq_iff)
  have names: "map CommandParamSpec.name ps = map dataName dps"
    by (simp add: ps_def)
  have len: "length ps = length dps" by (simp add: ps_def)
  from u obtain i where i: "npm ''username'' = Some i"
    using pushParams_snd_defined [of Map.empty "''username''" dps "[]"] by (auto simp: npm_def)
  from w obtain j where j: "npm ''password'' = Some j"
    using pushParams_snd_defined [of Map.empty "''password''" dps "[]"] by (auto simp: npm_def)
  have idx: "k < length ps \<and> CommandParamSpec.name (ps ! k) = key" if "npm key = Some k" for key k
    using pushParams_snd_index [of Map.empty "[]" dps key k] that by (auto simp: npm_def ps_def)
  from idx [OF i] have i': "i < length ps" "CommandParamSpec.name (ps ! i) = ''username''"
    by simp_all
  from idx [OF j] have j': "j < length ps" "CommandParamSpec.name (ps ! j) = ''password''"
    by simp_all
  from i' j' have ij: "i \<noteq> j" by auto
  define ps2 where "ps2 = (ps[i := setKeystoreFlags (ps ! i)])[j := setKeystoreFlags (ps ! j)]"
  have spec: "CommandSpec2_new ctx (SpecData n d out dps) =
        \<lparr>CommandSpec2.contextName = ctx, name = n, desc = d, outputType = out, params = ps2,
         nameParamMap = npm, useKeystore = True\<rparr>"
    using ij by (simp add: pp i j ps2_def Let_def)
  have nth2: "ps2 ! k = (if k = j then setKeystoreFlags (ps ! j)
                          else if k = i then setKeystoreFlags (ps ! i) else ps ! k)"
    if "k < length ps" for k
    using that i' j' by (simp add: ps2_def nth_list_update)
  have names2: "map CommandParamSpec.name ps2 = map dataName dps"
    unfolding names [symmetric]
    using i' j' by (intro nth_equalityI) (auto simp: ps2_def nth_list_update)
  have di: "dataName (dps ! i) = ''username''" and dj: "dataName (dps ! j) = ''password''"
    using i' j' by (simp_all add: ps_def)
  have flags: "hidden (ps2 ! i)" "optional (ps2 ! i) = Some True"
              "hidden (ps2 ! j)" "optional (ps2 ! j) = Some True"
    using i' j' ij by (simp_all add: nth2)
  have all: "hidden p \<and> optional p = Some True"
    if dist: "distinct (map dataName dps)" and p: "p \<in> set ps2"
      and nm: "CommandParamSpec.name p = ''username'' \<or> CommandParamSpec.name p = ''password''"
    for p
  proof -
    have len2: "length ps2 = length ps" by (simp add: ps2_def)
    from p obtain k where k: "k < length ps2" "ps2 ! k = p" by (auto simp: in_set_conv_nth)
    have "map CommandParamSpec.name ps2 ! k = CommandParamSpec.name p" using k by simp
    then have nk: "map dataName dps ! k = CommandParamSpec.name p" by (simp add: names2)
    have ni: "map dataName dps ! i = ''username''" using di i' len by simp
    have nj: "map dataName dps ! j = ''password''" using dj j' len by simp
    from nm have "k = i \<or> k = j"
    proof
      assume "CommandParamSpec.name p = ''username''"
      with nk ni have "dataName (dps ! k) = dataName (dps ! i)"
        using k(1) i'(1) len len2 by simp
      with dist k(1) i'(1) len len2 have "k = i"
        by (intro distinct_map_nth_eq [of dataName dps]) simp_all
      then show ?thesis ..
    next
      assume "CommandParamSpec.name p = ''password''"
      with nk nj have "dataName (dps ! k) = dataName (dps ! j)"
        using k(1) j'(1) len len2 by simp
      with dist k(1) j'(1) len len2 have "k = j"
        by (intro distinct_map_nth_eq [of dataName dps]) simp_all
      then show ?thesis ..
    qed
    with flags k(2) show ?thesis by auto
  qed
  show ?thesis
    unfolding spec using names2 i j i' j' len di dj flags all by auto
qed

theorem CommandSpec2_new_keystore_fields_witness:
  "useKeystore (CommandSpec2_new ''avm'' (SpecData ''send'' ''Send an asset'' None
     [ParamData ''username'' ''user'' ''string'' (Some False),
      ParamData ''password'' ''pass'' ''string'' None,
      ParamData ''amount'' ''how much'' ''BN'' None]))
   \<and> map (\<lambda>p. (CommandParamSpec.name p, hidden p, optional p))
       (params (CommandSpec2_new ''avm'' (SpecData ''send'' ''Send an asset'' None
         [ParamData ''username'' ''user'' ''string'' (Some False),
          ParamData ''password'' ''pass'' ''string'' None,
          ParamData ''amount'' ''how much'' ''BN'' None])))
     = [(''username'', True, Some True), (''password'', True, Some True),
        (''amount'', False, None)]"
  using CommandSpec2_new_keystore_fields [of
      "[ParamData ''username'' ''user'' ''string'' (Some False),
        ParamData ''password'' ''pass'' ''string'' None,
        ParamData ''amount'' ''how much'' ''BN'' None]" "''avm''" "''send''" "''Send an asset''" None]
  by (simp add: setKeystoreFlags_def)

section \<open>The active context\<close>

text \<open>
  Two lines on the constructed dispatcher: the name of a member of \<^verbatim>\<open>Object.prototype\<close>
  becomes the active context, and a line is trimmed of U+00A0 as of a line feed.
\<close>

lemma evalHandler_inherited_name:
  "activeContext (fst (evalHandler E (CommandHandler_new body forIn) ''constructor'')) =
     Some ''constructor''"
  by (simp add: evalHandler_def evalBody_def trim_constructor new_isContext_constructor Let_def)

lemma evalHandler_trims_nbsp:
  "activeContext (fst (evalHandler E (CommandHandler_new body forIn)
     ([CHR 0xC2, CHR 0xA0] @ ''avm'' @ [CHR 0x0A]))) = Some ''avm''"
  using trim_nbsp_avm
  by (simp add: evalHandler_def evalBody_def new_isContext_avm Let_def)

text \<open>
  C4. The claim: entering a context from no context, leaving it with \<^verbatim>\<open>exit\<close>, and ending
  the session with \<^verbatim>\<open>exit\<close> are the only transitions. With the context \<^verbatim>\<open>avm\<close> active,
  the line \<^verbatim>\<open>platform\<close> makes \<^verbatim>\<open>platform\<close> the active context.
\<close>

theorem evalHandler_switches_between_contexts:
  "activeContext (fst (evalHandler plainCollaborators
      ((CommandHandler_new completing declaredMethods)\<lparr>activeContext := Some ''avm''\<rparr>)
      ''platform'')) = Some ''platform''"
  by (simp add: evalHandler_def evalBody_def trim_platform new_isContext_platform Let_def)

text \<open>
  C4, as the code has it. From the constructed dispatcher, the line \<^verbatim>\<open>avm\<close> makes \<^verbatim>\<open>avm\<close>
  the active context, \<^verbatim>\<open>exit\<close> then clears it and the session goes on, and a second
  \<^verbatim>\<open>exit\<close> ends the process. For every dispatcher and line, \<^verbatim>\<open>evalHandler\<close> changes
  nothing of the dispatcher but the active context: \<^verbatim>\<open>exit\<close> clears an active context, a
  line whose trimmed text \<^verbatim>\<open>handlerMap\<close> has something under makes that text the active
  context from any state, and any other line leaves it as it was. The process ends exactly
  on \<^verbatim>\<open>exit\<close> with no active context. On the constructed dispatcher \<^verbatim>\<open>handlerMap\<close> has
  something under the names of the four handlers and under the names of the members of
  \<^verbatim>\<open>Object.prototype\<close>, and under nothing else.
\<close>

theorem activeContext_transitions:
  "(let h0 = CommandHandler_new body forIn;
        (h1, e1, r1) = evalHandler E h0 ''avm'';
        (h2, e2, r2) = evalHandler E h1 ''exit'';
        (h3, e3, r3) = evalHandler E h2 ''exit''
    in activeContext h0 = None \<and>
       activeContext h1 = Some ''avm'' \<and> r1 = Callback JNull \<and>
       activeContext h2 = None \<and> r2 = Callback JNull \<and>
       r3 = ProcessExit)
   \<and> fst (evalHandler E h line) =
       h\<lparr>activeContext :=
           (if trim line = ''exit''
            then (if truthyString (activeContext h) then None else activeContext h)
            else if trim line \<noteq> [] \<and> isContext h (trim line) then Some (trim line)
            else activeContext h)\<rparr>
   \<and> (snd (snd (evalHandler E h line)) = ProcessExit) =
       (trim line = ''exit'' \<and> \<not> truthyString (activeContext h))
   \<and> isContext ((CommandHandler_new body forIn)\<lparr>activeContext := a\<rparr>) c =
       (c \<in> set [''info'', ''keystore'', ''avm'', ''platform''] \<or> c \<in> set Object_prototype)"
proof -
  have sequence: "(let h0 = CommandHandler_new body forIn;
        (h1, e1, r1) = evalHandler E h0 ''avm'';
        (h2, e2, r2) = evalHandler E h1 ''exit'';
        (h3, e3, r3) = evalHandler E h2 ''exit''
    in activeContext h0 = None \<and>
       activeContext h1 = Some ''avm'' \<and> r1 = Callback JNull \<and>
       activeContext h2 = None \<and> r2 = Callback JNull \<and>
       r3 = ProcessExit)"
    by (simp add: evalHandler_def evalBody_def Let_def trim_avm trim_exit new_isContext_avm)
  have step: "fst (evalHandler E h line) =
       h\<lparr>activeContext :=
           (if trim line = ''exit''
            then (if truthyString (activeContext h) then None else activeContext h)
            else if trim line \<noteq> [] \<and> isContext h (trim line) then Some (trim line)
            else activeContext h)\<rparr>
   \<and> (snd (snd (evalHandler E h line)) = ProcessExit) =
       (trim line = ''exit'' \<and> \<not> truthyString (activeContext h))"
    by (auto simp: evalHandler_def evalBody_def Let_def split: prod.splits outcome.splits)
  have registered: "isContext ((CommandHandler_new body forIn)\<lparr>activeContext := a\<rparr>) c =
       (c \<in> set [''info'', ''keystore'', ''avm'', ''platform''] \<or> c \<in> set Object_prototype)"
    by (simp add: new_isContext)
  from sequence step registered show ?thesis by blast
qed

section \<open>Implicit credentials\<close>

text \<open>
  With an active user, the two keystore fields take the user's name and password and
  \<^verbatim>\<open>valueIndex\<close> stays where it is.
\<close>

lemma validateParam_keystore_user:
  "getActiveUser E = Some user \<Longrightarrow> isKeystoreUserParam s p \<Longrightarrow>
     validateParam E s raw vi p = Push (JString (username user)) False"
  by (simp add: validateParam_def)

lemma validateParam_keystore_password:
  "getActiveUser E = Some user \<Longrightarrow> \<not> isKeystoreUserParam s p \<Longrightarrow> isKeystorePasswordParam s p \<Longrightarrow>
     validateParam E s raw vi p = Push (JString (password user)) False"
  by (simp add: validateParam_def)

lemma validateParam_advances_only_on_token:
  "validateParam E s raw vi p = Push v True \<Longrightarrow>
     \<not> isKeystoreUserParam s p \<and> \<not> isKeystorePasswordParam s p \<and> vi < length raw \<and> raw ! vi \<noteq> []"
  by (auto simp: validateParam_def split: if_splits option.splits sum.splits)

text \<open>
  C5. The claim: with no active credential, validation fails with a validation error, not
  with an exception. For a definition with the fields \<^verbatim>\<open>username\<close> and \<^verbatim>\<open>password\<close> and
  nobody logged in, \<^verbatim>\<open>validateInput\<close> reads \<^verbatim>\<open>user.username\<close> of a missing user and
  throws.
\<close>

theorem validateInput_without_user_throws:
  "validateInput (E\<lparr>getActiveUser := None\<rparr>)
     (CommandSpec2_new ''avm'' (SpecData ''createAddress'' ''Creates an address'' None
        [ParamData ''username'' ''user'' ''string'' None,
         ParamData ''password'' ''pass'' ''string'' None])) []
   = ([], Throws (TypeError ''Cannot read property username of undefined''))"
  by (simp add: validateInput_def requiredParameterCount_def setKeystoreFlags_def
      validateParam_def isKeystoreUserParam_def)

section \<open>Too few arguments for \<^verbatim>\<open>avm send\<close>\<close>

text \<open>
  C6. The command \<^verbatim>\<open>send\<close> of the context \<^verbatim>\<open>avm\<close> is registered with three required
  fields. On the line \<^verbatim>\<open>avm send a b\<close>, with no active context, \<^verbatim>\<open>handleCommand\<close> logs
  ``Invalid Arguments'' and the usage block of the command and returns; no handler method
  is called.
\<close>

theorem handleCommand_send_too_few:
  "map_property countRequiredFields (getCommandSpec (CommandHandler_new body forIn) ''avm'' ''send'')
     = Own 3
   \<and> handleCommand (E\<lparr>splitTokens := StringUtility_splitTokens\<rparr>)
       (CommandHandler_new body forIn) ''avm send a b'' =
       ([ConsoleLog ''Invalid Arguments'',
         ConsoleLog ''Usage: send <fromAddress> <toAddress> <amount> [asset]'',
         ConsoleLog (''Usage: - Sends asset from an address managed by this node'' @ [CHR 0x27] @
           ''s keystore to a destination address''),
         ConsoleLog []], Returns ())
   \<and> (\<forall>c m args. Invoke c m args \<notin> set (fst (handleCommand
         (E\<lparr>splitTokens := StringUtility_splitTokens\<rparr>)
         (CommandHandler_new body forIn) ''avm send a b'')))"
  by (simp add: handleCommand_avm_send_a_b getCommandSpec_avm_send CommandSpec_new_def
      FieldSpec_new_def)

section \<open>Completion\<close>

text \<open>
  C7. The claim: on a line without tokens the completer returns the pair of the candidate
  list and the fragment, in this order. On the empty line it returns \<^verbatim>\<open>undefined\<close> first
  and the list of top-level commands second.
\<close>

theorem completer_empty_line:
  "completer (E\<lparr>splitTokens := StringUtility_splitTokens\<rparr>) (CommandHandler_new body forIn) [] =
     ([], Returns (JUndefined,
        JStrings [''help'', ''exit'', ''info'', ''keystore'', ''avm'', ''platform'']))"
  by (simp add: completer_def tokens_empty getTopLevelCommands_def META_COMMANDS_def)

text \<open>
  C9. With no active context and \<^verbatim>\<open>avm\<close> among the registered contexts, the completer on
  a line whose only token is \<^verbatim>\<open>av\<close> (which names no context) returns the top-level commands
  that start with \<^verbatim>\<open>av\<close>, sorted and then each followed by a space, together with the
  fragment \<^verbatim>\<open>av\<close>; the entry for \<^verbatim>\<open>avm\<close> is among them.
\<close>

theorem completer_av:
  assumes "\<not> truthyString (activeContext h)" and "splitTokens E line = [''av'']"
    and "''avm'' \<in> set (handlerKeys h)" and "\<not> isContext h ''av''"
  shows "completer E h line =
           ([], Returns (JStrings (map (\<lambda>x. x @ '' '')
                  (sort (filter (\<lambda>c. take (length ''av'') c = ''av'') (getTopLevelCommands h)))),
            JString ''av''))
       \<and> sorted (sort (filter (\<lambda>c. take (length ''av'') c = ''av'') (getTopLevelCommands h)))
       \<and> ''avm '' \<in> set (map (\<lambda>x. x @ '' '')
                  (sort (filter (\<lambda>c. take (length ''av'') c = ''av'') (getTopLevelCommands h))))"
proof -
  let ?matches = "filter (\<lambda>c. take (length ''av'') c = ''av'') (getTopLevelCommands h)"
  have "''avm'' \<in> set ?matches"
    using assms(3) by (simp add: getTopLevelCommands_def)
  then have "''avm'' \<in> set (sort ?matches)"
    by simp
  then have mem: "''avm '' \<in> set (map (\<lambda>x. x @ '' '') (sort ?matches))"
    by force
  have "completer E h line =
      ([], Returns (JStrings (map (\<lambda>x. x @ '' '') (sort ?matches)), JString ''av''))"
    using assms(1,2,4)
    by (simp add: completer_def getCompletions_def appendSeparator_def startsWith_iff)
  with mem show ?thesis by simp
qed

theorem completer_av_witness:
  "completer plainCollaborators (CommandHandler_new completing declaredMethods) ''av'' =
     ([], Returns (JStrings [''avm ''], JString ''av''))"
  using completer_av [of "CommandHandler_new completing declaredMethods" plainCollaborators "''av''"]
  by (simp add: tokens_av new_isContext_av getTopLevelCommands_def META_COMMANDS_def)

section \<open>The big-integer round trip\<close>

lemma isDigit_cases:
  assumes "isDigit c"
  shows "c \<in> set ''0123456789''"
proof -
  from assms have "48 \<le> (of_char c :: nat)" "(of_char c :: nat) \<le> 57"
    by (simp_all add: isDigit_def less_eq_char_def)
  then have "(of_char c :: nat) \<in> {48, 49, 50, 51, 52, 53, 54, 55, 56, 57}"
    by (simp only: insert_iff empty_iff) arith
  then have "(of_char c :: nat) \<in> of_char ` set ''0123456789''"
    by simp
  then obtain d where "d \<in> set ''0123456789''" "(of_char c :: nat) = of_char d"
    by blast
  then show ?thesis by (simp only: of_char_eq_iff)
qed

lemma digit_inverse:
  "isDigit c \<Longrightarrow> 0 \<le> digitVal c \<and> digitVal c < 10 \<and> digitChar (nat (digitVal c)) = c"
  by (drule isDigit_cases) (auto simp: digitVal_def digitChar_def)

lemma decimalValue_snoc: "decimalValue (xs @ [c]) = 10 * decimalValue xs + digitVal c"
  by (simp add: decimalValue_def)

lemma decimalValue_nonneg: "list_all isDigit xs \<Longrightarrow> 0 \<le> decimalValue xs"
proof (induction xs rule: rev_induct)
  case Nil
  then show ?case by (simp add: decimalValue_def)
next
  case (snoc c xs)
  then show ?case by (auto simp: decimalValue_snoc dest: digit_inverse)
qed

lemma decimalValue_pos:
  "list_all isDigit xs \<Longrightarrow> xs \<noteq> [] \<Longrightarrow> hd xs \<noteq> CHR ''0'' \<Longrightarrow> 0 < decimalValue xs"
proof (induction xs rule: rev_induct)
  case Nil
  then show ?case by simp
next
  case (snoc c xs)
  show ?case
  proof (cases "xs = []")
    case True
    with snoc.prems have "isDigit c" "c \<noteq> CHR ''0''" by simp_all
    then have "0 < digitVal c" by (auto dest!: isDigit_cases simp: digitVal_def)
    with True show ?thesis by (simp add: decimalValue_def)
  next
    case False
    with snoc have "0 < decimalValue xs" by simp
    moreover from snoc.prems have "0 \<le> digitVal c" by (auto dest: digit_inverse)
    ultimately show ?thesis by (simp add: decimalValue_snoc)
  qed
qed

text \<open>Printing the value of decimal text without a leading zero gives the text back.\<close>

lemma Number_toString_decimalValue:
  "list_all isDigit v \<Longrightarrow> v \<noteq> [] \<Longrightarrow> hd v \<noteq> CHR ''0'' \<or> v = ''0'' \<Longrightarrow>
   Number_toString (nat (decimalValue v)) = v"
proof (induction v rule: rev_induct)
  case Nil
  then show ?case by simp
next
  case (snoc c xs)
  from snoc.prems have c: "isDigit c" by simp
  from digit_inverse [OF c] have d: "0 \<le> digitVal c" "digitVal c < 10"
    "digitChar (nat (digitVal c)) = c" by simp_all
  show ?case
  proof (cases "xs = []")
    case True
    from d have "nat (digitVal c) < 10" by simp
    with True d show ?thesis
      by (simp add: decimalValue_def Number_toString.simps [of "nat (digitVal c)"])
  next
    case False
    with snoc.prems have hd: "hd xs \<noteq> CHR ''0''" and ds: "list_all isDigit xs" by auto
    from decimalValue_pos [OF ds False hd] have pos: "0 < decimalValue xs" .
    from snoc.IH [OF ds False] hd have IH: "Number_toString (nat (decimalValue xs)) = xs"
      by simp
    let ?n = "nat (10 * decimalValue xs + digitVal c)"
    have n: "?n = 10 * nat (decimalValue xs) + nat (digitVal c)"
      using pos d by (simp add: nat_add_distrib nat_mult_distrib)
    have "\<not> ?n < 10" using pos d n by auto
    moreover have "?n div 10 = nat (decimalValue xs)" "?n mod 10 = nat (digitVal c)"
      using d n by auto
    ultimately have "Number_toString ?n =
        Number_toString (nat (decimalValue xs)) @ [digitChar (nat (digitVal c))]"
      by (subst Number_toString.simps) simp
    with IH d show ?thesis by (simp add: decimalValue_snoc)
  qed
qed

lemma BN_toString_BN_new:
  assumes "list_all isDigit v" "v \<noteq> []" "hd v \<noteq> CHR ''0'' \<or> v = ''0''"
  shows "map_option BN_toString (BN_new v) = Some v"
proof -
  have "0 \<le> decimalValue v" using assms(1) by (rule decimalValue_nonneg)
  with Number_toString_decimalValue [OF assms] assms(1,2) show ?thesis
    by (simp add: BN_new_def BN_toString_def)
qed

lemma twenty_digits:
  "list_all isDigit ''12345678901234567890'' \<and> ''12345678901234567890'' \<noteq> [] \<and>
   hd ''12345678901234567890'' \<noteq> CHR ''0''"
  by (simp add: isDigit_def less_eq_char_def)

lemma BN_new_example: "BN_new ''12345678901234567890'' = Some 12345678901234567890"
  by (simp add: BN_new_def decimalValue_def isDigit_def digitVal_def less_eq_char_def)

text \<open>
  C8. Sanitizing the token 12345678901234567890 for a field of type BN gives a value that
  \<^verbatim>\<open>formatOutput\<close>, for a definition whose output type is BN, turns back into the same
  twenty digits; and so does every token of decimal digits that has no leading zero.
\<close>

theorem BN_round_trip:
  assumes "type p = ''BN''" and "outputType s = Some ''BN''"
  shows "(case sanitize E p ''12345678901234567890'' of
            Inl e \<Rightarrow> Inl e
          | Inr x \<Rightarrow> formatOutput E s x) = Inr (JString ''12345678901234567890'')
       \<and> sanitize E p ''12345678901234567890'' = Inr (JBN 12345678901234567890)
       \<and> (list_all isDigit v \<and> v \<noteq> [] \<and> (hd v \<noteq> CHR ''0'' \<or> v = ''0'') \<longrightarrow>
           (case sanitize E p v of Inl e \<Rightarrow> Inl e | Inr x \<Rightarrow> formatOutput E s x)
             = Inr (JString v))"
proof -
  have general: "(case sanitize E p v of Inl e \<Rightarrow> Inl e | Inr x \<Rightarrow> formatOutput E s x)
      = Inr (JString v)"
    if "list_all isDigit v" "v \<noteq> []" "hd v \<noteq> CHR ''0'' \<or> v = ''0''" for v
  proof -
    from BN_toString_BN_new [OF that] obtain n where "BN_new v = Some n" "BN_toString n = v"
      by auto
    with assms show ?thesis
      by (simp add: sanitize_def formatOutput_def toString10_def)
  qed
  have "sanitize E p ''12345678901234567890'' = Inr (JBN 12345678901234567890)"
    using assms by (simp add: sanitize_def BN_new_example)
  with general [of "''12345678901234567890''"] general [of v] twenty_digits
  show ?thesis by simp
qed

theorem BN_round_trip_witness:
  "list_all isDigit ''12345678901234567890'' \<and> hd ''12345678901234567890'' \<noteq> CHR ''0'' \<and>
   (case sanitize plainCollaborators
           \<lparr>CommandParamSpec.name = ''amount'', desc = ''how much'', type = ''BN'',
            optional = None, hidden = False\<rparr> ''12345678901234567890'' of
      Inl e \<Rightarrow> Inl e
    | Inr x \<Rightarrow>
        formatOutput plainCollaborators
          (CommandSpec2_new ''avm'' (SpecData ''getBalance'' ''balance'' (Some ''BN'') [])) x)
   = Inr (JString ''12345678901234567890'')"
proof -
  let ?p = "\<lparr>CommandParamSpec.name = ''amount'', desc = ''how much'', type = ''BN'',
            optional = None, hidden = False\<rparr>"
  let ?s = "CommandSpec2_new ''avm'' (SpecData ''getBalance'' ''balance'' (Some ''BN'') [])"
  have p: "type ?p = ''BN''" by simp
  have s: "outputType ?s = Some ''BN''" by simp
  from BN_round_trip [OF p s, of plainCollaborators "''12345678901234567890''"] twenty_digits
  show ?thesis by blast
qed

section \<open>Fields of type Date\<close>

text \<open>A definition whose fields are all of type Date validates whenever the count check passes.\<close>

lemma validateInput_Date_only:
  assumes "requiredParameterCount s \<le> length raw"
    and "useKeystore s \<longrightarrow> getActiveUser E \<noteq> None"
    and "\<forall>p \<in> set (params s). type p = ''Date''"
  shows "\<exists>vs. validateInput E s raw = ([], Returns (Some vs)) \<and> length vs = length (params s)"
  using assms by (intro validateInput_wellformed) (auto simp: sanitize_def)

text \<open>
  C10. For a field of type Date, no round of the loop of \<^verbatim>\<open>validateInput\<close> ends with the
  ``Invalid input'' report, whatever the tokens are; and when the field is not a keystore
  field and a non-empty token is at the cursor, the round pushes the Date object made from
  that token and advances the cursor.
\<close>

theorem Date_field_never_invalid:
  assumes "type param = ''Date''"
  shows "(\<forall>line. validateParam E s rawValues valueIndex param \<noteq> Invalid line)
       \<and> (\<not> isKeystoreUserParam s param \<and> \<not> isKeystorePasswordParam s param \<and>
           valueIndex < length rawValues \<and> rawValues ! valueIndex \<noteq> [] \<longrightarrow>
           validateParam E s rawValues valueIndex param =
             Push (JDate (rawValues ! valueIndex)) True)"
  using assms by (auto simp: validateParam_def sanitize_def split: option.splits)

theorem Date_field_never_invalid_witness:
  "(\<forall>line. validateParam plainCollaborators
       (CommandSpec2_new ''platform'' (SpecData ''addValidator'' ''Add a validator'' None
          [ParamData ''endTime'' ''end of staking'' ''Date'' None]))
       [''tomorrow''] 0
       \<lparr>CommandParamSpec.name = ''endTime'', desc = ''end of staking'', type = ''Date'',
        optional = None, hidden = False\<rparr> \<noteq> Invalid line)
   \<and> validateParam plainCollaborators
       (CommandSpec2_new ''platform'' (SpecData ''addValidator'' ''Add a validator'' None
          [ParamData ''endTime'' ''end of staking'' ''Date'' None]))
       [''tomorrow''] 0
       \<lparr>CommandParamSpec.name = ''endTime'', desc = ''end of staking'', type = ''Date'',
        optional = None, hidden = False\<rparr> = Push (JDate ''tomorrow'') True"
  using Date_field_never_invalid [where
      param = "\<lparr>CommandParamSpec.name = ''endTime'', desc = ''end of staking'', type = ''Date'',
        optional = None, hidden = False\<rparr>"
      and s = "CommandSpec2_new ''platform'' (SpecData ''addValidator'' ''Add a validator'' None
          [ParamData ''endTime'' ''end of staking'' ''Date'' None])"
      and rawValues = "[''tomorrow'']" and valueIndex = 0 and E = plainCollaborators]
  by (simp add: isKeystoreUserParam_def isKeystorePasswordParam_def)

end
